theory Spec2Isabelle
  imports Main "HOL-Library.Word"
begin

section \<open>The gdbm compatibility shim of go-ndbm\<close>

text \<open>
  The shim is \<^verbatim>\<open>gdbm_compat.h\<close> (a replacement for the ndbm header of gdbm 1.8)
  and \<^verbatim>\<open>gdbm_compat_linux.c\<close>, which emulates the two error functions the
  library does not export. Both functions are one statement long and work on the
  engine's global variable \<^verbatim>\<open>gdbm_errno\<close>.
\<close>

subsection \<open>Data\<close>

text \<open>A C \<^verbatim>\<open>int\<close> is 32 bits wide; a \<^verbatim>\<open>DBM*\<close> is an address.\<close>

type_synonym int32 = "32 word"
type_synonym addr = "64 word"

definition NULL :: addr where
  "NULL = 0"

text \<open>
  \<^verbatim>\<open>typedef struct { int dummy[10]; } DBM;\<close> (gdbm_compat.h, lines 13 to 15):
  a placeholder of ten ints standing for the library's own handle structure.
\<close>

record DBM =
  dummy :: "int32 list"

text \<open>A \<^verbatim>\<open>datum\<close> of the engine (a pointer and a size) is a byte string.\<close>

type_synonym datum = "8 word list"

text \<open>
  An open database, as the engine keeps it: whether it was opened for writing (a
  writer) or read-only (a reader), and its records.
\<close>

record database =
  writer :: bool
  records :: "datum \<rightharpoonup> datum"

text \<open>
  The program state the shim runs in:
  \<^item> \<open>gdbm_errno\<close>: the engine's process-wide error indicator. Its declaration is in
    \<^verbatim>\<open>gdbm.h\<close>; the shim assigns the int \<open>0\<close> to it and returns it as an int.
  \<^item> \<open>mem\<close>: the memory that handles point to, an address with no structure behind it
    being unmapped.
  \<^item> \<open>contents\<close>: the open databases, kept by the engine.
\<close>

record state =
  gdbm_errno :: int32
  mem :: "addr \<rightharpoonup> DBM"
  contents :: "addr \<rightharpoonup> database"

text \<open>
  A C function either completes, with a return value and the state it leaves, or it
  faults. The faults are those of handle use: reading through a null pointer, reading
  through an address that holds no structure, and an engine call on a handle that is
  not an open database.
\<close>

datatype fault = Null_Pointer | Bad_Address | Invalid_Handle

type_synonym 'a outcome = "fault + ('a \<times> state)"

definition completes :: "'a outcome \<Rightarrow> bool" where
  "completes r = (case r of Inl e \<Rightarrow> False | Inr p \<Rightarrow> True)"

text \<open>Sequencing of two calls: the second runs in the state the first leaves.\<close>

definition seq :: "(state \<Rightarrow> 'a outcome) \<Rightarrow> ('a \<Rightarrow> state \<Rightarrow> 'b outcome) \<Rightarrow> state \<Rightarrow> 'b outcome" where
  "seq m f s = (case m s of Inl e \<Rightarrow> Inl e | Inr (v, s') \<Rightarrow> f v s')"

text \<open>
  Reading the structure a handle points to, \<^verbatim>\<open>*db\<close>: what the two functions of the
  shim never do.
\<close>

definition deref :: "addr \<Rightarrow> state \<Rightarrow> DBM outcome" where
  "deref p s =
     (if p = NULL then Inl Null_Pointer
      else case mem s p of None \<Rightarrow> Inl Bad_Address | Some d \<Rightarrow> Inr (d, s))"

subsection \<open>The error functions (gdbm_compat_linux.c)\<close>

text \<open>\<^verbatim>\<open>void dbm_clearerr(DBM* db) { gdbm_errno = 0; }\<close>\<close>

definition dbm_clearerr :: "addr \<Rightarrow> state \<Rightarrow> unit outcome" where
  "dbm_clearerr db s = Inr ((), s\<lparr>gdbm_errno := 0\<rparr>)"

text \<open>\<^verbatim>\<open>int dbm_error(DBM* db) { return gdbm_errno; }\<close>\<close>

definition dbm_error :: "addr \<Rightarrow> state \<Rightarrow> int32 outcome" where
  "dbm_error db s = Inr (gdbm_errno s, s)"

subsection \<open>The sentinel of a missing item (gdbm_compat.h)\<close>

text \<open>
  \<^verbatim>\<open>#define DBM_ITEM_NOT_FOUND GDBM_ITEM_NOT_FOUND\<close> (line 33). The engine's constant
  is declared in \<^verbatim>\<open>gdbm.h\<close>, so it is a parameter here.
\<close>

definition DBM_ITEM_NOT_FOUND :: "int32 \<Rightarrow> int32" where
  "DBM_ITEM_NOT_FOUND GDBM_ITEM_NOT_FOUND = GDBM_ITEM_NOT_FOUND"

text \<open>
  Modelled from the spec: \<^verbatim>\<open>dbm_delete\<close>, the delete entry point. Its body is in
  the gdbm library; the sources hold its prototype
  \<^verbatim>\<open>int dbm_delete(DBM* db, datum key);\<close> (gdbm_compat.h, line 21) and the
  comment of lines 31 and 32 (gdbm's \<^verbatim>\<open>dbm_delete\<close> does not return 1 if the
  item is missing like BSD ndbm; instead, the error code has to be checked).

  Following the spec, a delete that fails returns the one failure value \<open>-1\<close>, which
  alone does not tell a missing key from another cause; the cause is in the global
  error code. The spec speaks of other failure causes without listing them. The model
  has the one the engine has for a delete: a database opened read-only cannot delete,
  and the engine checks this first, before it looks for the key, leaving its code
  \<^verbatim>\<open>GDBM_READER_CANT_DELETE\<close> and the records as they are. On a writer the engine
  clears the error code and looks the key up: a key that is not there leaves the
  item-not-found sentinel, a key that is there is removed and the call returns \<open>0\<close>.
  Both codes are constants of \<^verbatim>\<open>gdbm.h\<close> and so parameters here (11 and 15 in
  that header). The spec is silent on a handle that is not an open database; the model
  faults there.
\<close>

definition dbm_delete :: "int32 \<Rightarrow> int32 \<Rightarrow> addr \<Rightarrow> datum \<Rightarrow> state \<Rightarrow> int32 outcome" where
  "dbm_delete GDBM_READER_CANT_DELETE GDBM_ITEM_NOT_FOUND db key s =
     (case contents s db of
        None \<Rightarrow> Inl Invalid_Handle
      | Some d \<Rightarrow>
          if \<not> writer d then Inr (- 1, s\<lparr>gdbm_errno := GDBM_READER_CANT_DELETE\<rparr>)
          else
            (case records d key of
               None \<Rightarrow> Inr (- 1, s\<lparr>gdbm_errno := GDBM_ITEM_NOT_FOUND\<rparr>)
             | Some v \<Rightarrow>
                 Inr (0, s\<lparr>gdbm_errno := 0,
                   contents := (contents s)(db \<mapsto> d\<lparr>records := (records d)(key := None)\<rparr>)\<rparr>)))"

section \<open>Properties\<close>

subsection \<open>Helper facts\<close>

lemma completes_Inr: "completes (Inr p)"
  by (simp add: completes_def)

lemma seq_Inr: "m s = Inr (v, s') \<Longrightarrow> seq m f s = f v s'"
  by (simp add: seq_def)

subsection \<open>Clearing and reading the error indicator\<close>

text \<open>
  C1. For every handle \<open>db\<close> and every prior value \<open>e\<close> of the global error indicator,
  \<open>dbm_clearerr db\<close> followed by \<open>dbm_error db'\<close>, for any handle \<open>db'\<close>, returns the
  no-error value \<open>0\<close>.
\<close>

theorem dbm_clearerr_then_dbm_error:
  "\<exists>s'. seq (dbm_clearerr db) (\<lambda>u. dbm_error db') (s\<lparr>gdbm_errno := e\<rparr>) = Inr (0, s')"
proof -
  have "dbm_clearerr db (s\<lparr>gdbm_errno := e\<rparr>) = Inr ((), s\<lparr>gdbm_errno := 0\<rparr>)"
    by (simp add: dbm_clearerr_def)
  then have "seq (dbm_clearerr db) (\<lambda>u. dbm_error db') (s\<lparr>gdbm_errno := e\<rparr>)
      = dbm_error db' (s\<lparr>gdbm_errno := 0\<rparr>)"
    by (rule seq_Inr)
  also have "\<dots> = Inr (0, s\<lparr>gdbm_errno := 0\<rparr>)"
    by (simp add: dbm_error_def)
  finally show ?thesis by blast
qed

text \<open>
  C2. For every handle \<open>db\<close>, \<open>dbm_clearerr db\<close> sets the global error indicator to
  \<open>0\<close> and returns nothing. The indicator is all it changes: the memory of the
  handles and the databases are as before, and putting the old value of the indicator
  back gives the starting state. The handle is ignored: any other handle \<open>db'\<close> gives
  the same outcome.
\<close>

theorem dbm_clearerr_resets_indicator:
  "\<exists>s'. dbm_clearerr db s = Inr ((), s') \<and> gdbm_errno s' = 0
     \<and> mem s' = mem s \<and> contents s' = contents s
     \<and> s'\<lparr>gdbm_errno := gdbm_errno s\<rparr> = s
     \<and> dbm_clearerr db' s = Inr ((), s')"
  by (simp add: dbm_clearerr_def)

text \<open>
  C3. For every handle \<open>db\<close> and every current value of the global error indicator,
  \<open>dbm_error db\<close> returns exactly that value, bit for bit and so also as a signed
  integer. The handle is ignored: any other handle \<open>db'\<close> gives the same outcome.
\<close>

theorem dbm_error_returns_indicator:
  "\<exists>v s'. dbm_error db s = Inr (v, s') \<and> v = gdbm_errno s \<and> sint v = sint (gdbm_errno s)
     \<and> dbm_error db (s\<lparr>gdbm_errno := e\<rparr>) = Inr (e, s\<lparr>gdbm_errno := e\<rparr>)
     \<and> dbm_error db' s = Inr (v, s')"
  unfolding dbm_error_def by simp

subsection \<open>The missing item\<close>

text \<open>
  A failed delete returns \<open>-1\<close> whatever the cause: on a reader, with the key there
  or not, the error code is the reader's and nothing is deleted.
\<close>

lemma dbm_delete_reader:
  assumes "contents s db = Some d" and "\<not> writer d"
  shows "dbm_delete GDBM_READER_CANT_DELETE GDBM_ITEM_NOT_FOUND db key s
    = Inr (- 1, s\<lparr>gdbm_errno := GDBM_READER_CANT_DELETE\<rparr>)"
  using assms by (simp add: dbm_delete_def)

text \<open>
  C4, as stated, for every key absent from the database: it fails on a database opened
  read-only. With the engine's codes 11 (reader cannot delete) and 15 (item not found),
  the reader at address 4096 and the key \<open>[9]\<close> that is not among its records, the
  delete returns \<open>-1\<close> and leaves the code 11, which is not the sentinel, and
  \<open>dbm_error\<close> then returns 11.
\<close>

theorem dbm_delete_absent_key_reader_counterexample:
  "contents \<lparr>gdbm_errno = 0, mem = [4096 \<mapsto> \<lparr>dummy = replicate 10 0\<rparr>],
       contents = [4096 \<mapsto> \<lparr>writer = False, records = [[1, 2] \<mapsto> [3]]\<rparr>]\<rparr> 4096
     = Some \<lparr>writer = False, records = [[1, 2] \<mapsto> [3]]\<rparr>
   \<and> records \<lparr>writer = False, records = [[1, 2] \<mapsto> [3]]\<rparr> [9] = None
   \<and> dbm_delete 11 15 4096 [9]
         \<lparr>gdbm_errno = 0, mem = [4096 \<mapsto> \<lparr>dummy = replicate 10 0\<rparr>],
          contents = [4096 \<mapsto> \<lparr>writer = False, records = [[1, 2] \<mapsto> [3]]\<rparr>]\<rparr>
     = Inr (- 1, \<lparr>gdbm_errno = 11, mem = [4096 \<mapsto> \<lparr>dummy = replicate 10 0\<rparr>],
          contents = [4096 \<mapsto> \<lparr>writer = False, records = [[1, 2] \<mapsto> [3]]\<rparr>]\<rparr>)
   \<and> (11 :: int32) \<noteq> DBM_ITEM_NOT_FOUND 15
   \<and> dbm_error 4096
         \<lparr>gdbm_errno = 11, mem = [4096 \<mapsto> \<lparr>dummy = replicate 10 0\<rparr>],
          contents = [4096 \<mapsto> \<lparr>writer = False, records = [[1, 2] \<mapsto> [3]]\<rparr>]\<rparr>
     = Inr (11, \<lparr>gdbm_errno = 11, mem = [4096 \<mapsto> \<lparr>dummy = replicate 10 0\<rparr>],
          contents = [4096 \<mapsto> \<lparr>writer = False, records = [[1, 2] \<mapsto> [3]]\<rparr>]\<rparr>)"
  by (simp add: dbm_delete_def dbm_error_def DBM_ITEM_NOT_FOUND_def)

text \<open>
  C4, amended. For every key absent from a database that is open for writing,
  \<open>dbm_delete\<close> completes with a return value other than the \<open>1\<close> of classic ndbm
  and leaves the global error code equal to \<open>DBM_ITEM_NOT_FOUND\<close>, which is the
  engine's \<open>GDBM_ITEM_NOT_FOUND\<close>; after such a delete \<open>dbm_error\<close>, on any handle,
  returns that sentinel.
\<close>

theorem dbm_delete_absent_key_writer:
  assumes "contents s db = Some d" and "writer d" and "records d key = None"
  shows "\<exists>r s'. dbm_delete GDBM_READER_CANT_DELETE GDBM_ITEM_NOT_FOUND db key s = Inr (r, s')
     \<and> r \<noteq> 1
     \<and> gdbm_errno s' = DBM_ITEM_NOT_FOUND GDBM_ITEM_NOT_FOUND
     \<and> DBM_ITEM_NOT_FOUND GDBM_ITEM_NOT_FOUND = GDBM_ITEM_NOT_FOUND
     \<and> dbm_error db' s' = Inr (DBM_ITEM_NOT_FOUND GDBM_ITEM_NOT_FOUND, s')"
proof -
  let ?s' = "s\<lparr>gdbm_errno := GDBM_ITEM_NOT_FOUND\<rparr>"
  from assms
  have del: "dbm_delete GDBM_READER_CANT_DELETE GDBM_ITEM_NOT_FOUND db key s = Inr (- 1, ?s')"
    by (simp add: dbm_delete_def)
  have ret: "(- 1 :: int32) \<noteq> 1"
    by simp
  have err: "dbm_error db' ?s' = Inr (DBM_ITEM_NOT_FOUND GDBM_ITEM_NOT_FOUND, ?s')"
    by (simp add: dbm_error_def DBM_ITEM_NOT_FOUND_def)
  have "gdbm_errno ?s' = DBM_ITEM_NOT_FOUND GDBM_ITEM_NOT_FOUND"
    by (simp add: DBM_ITEM_NOT_FOUND_def)
  moreover have "DBM_ITEM_NOT_FOUND GDBM_ITEM_NOT_FOUND = GDBM_ITEM_NOT_FOUND"
    by (simp add: DBM_ITEM_NOT_FOUND_def)
  ultimately show ?thesis
    using del ret err by blast
qed

text \<open>
  The same at an input: a writer at address 4096 holding one record, the key \<open>[9]\<close>
  that is not in it, and the engine's codes 11 and 15.
\<close>

theorem dbm_delete_absent_key_writer_witness:
  "contents \<lparr>gdbm_errno = 0, mem = [4096 \<mapsto> \<lparr>dummy = replicate 10 0\<rparr>],
       contents = [4096 \<mapsto> \<lparr>writer = True, records = [[1, 2] \<mapsto> [3]]\<rparr>]\<rparr> 4096
     = Some \<lparr>writer = True, records = [[1, 2] \<mapsto> [3]]\<rparr>
   \<and> writer \<lparr>writer = True, records = [[1, 2] \<mapsto> [3 :: 8 word]] :: datum \<rightharpoonup> datum\<rparr>
   \<and> records \<lparr>writer = True, records = [[1, 2] \<mapsto> [3]]\<rparr> [9] = None
   \<and> (\<exists>r s'. dbm_delete 11 15 4096 [9]
         \<lparr>gdbm_errno = 0, mem = [4096 \<mapsto> \<lparr>dummy = replicate 10 0\<rparr>],
          contents = [4096 \<mapsto> \<lparr>writer = True, records = [[1, 2] \<mapsto> [3]]\<rparr>]\<rparr> = Inr (r, s')
       \<and> r \<noteq> 1 \<and> gdbm_errno s' = 15 \<and> dbm_error NULL s' = Inr (15, s'))"
proof -
  let ?d = "\<lparr>writer = True, records = [[1, 2] \<mapsto> [3 :: 8 word]] :: datum \<rightharpoonup> datum\<rparr>"
  let ?s = "\<lparr>gdbm_errno = 0, mem = [4096 \<mapsto> \<lparr>dummy = replicate 10 0\<rparr>],
       contents = [4096 \<mapsto> ?d]\<rparr>"
  have h1: "contents ?s 4096 = Some ?d"
    by simp
  have h2: "writer ?d"
    by simp
  have h3: "records ?d [9] = None"
    by simp
  show ?thesis
    using h1 h2 h3 dbm_delete_absent_key_writer [OF h1 h2 h3, of 11 15 NULL]
    by (simp add: DBM_ITEM_NOT_FOUND_def)
qed

subsection \<open>No failure, no other effect\<close>

text \<open>
  C5. Neither \<open>dbm_clearerr\<close> nor \<open>dbm_error\<close> can fail: for every handle and every
  value \<open>e\<close> of the global error indicator both complete, and no fault \<open>f\<close> is the
  outcome of either.
\<close>

theorem error_functions_cannot_fail:
  "completes (dbm_clearerr db (s\<lparr>gdbm_errno := e\<rparr>))
   \<and> completes (dbm_error db (s\<lparr>gdbm_errno := e\<rparr>))
   \<and> dbm_clearerr db (s\<lparr>gdbm_errno := e\<rparr>) \<noteq> Inl f
   \<and> dbm_error db (s\<lparr>gdbm_errno := e\<rparr>) \<noteq> Inl f"
proof (intro conjI)
  show "completes (dbm_clearerr db (s\<lparr>gdbm_errno := e\<rparr>))"
    unfolding dbm_clearerr_def by (rule completes_Inr)
  show "completes (dbm_error db (s\<lparr>gdbm_errno := e\<rparr>))"
    unfolding dbm_error_def by (rule completes_Inr)
  show "dbm_clearerr db (s\<lparr>gdbm_errno := e\<rparr>) \<noteq> Inl f"
    by (simp add: dbm_clearerr_def)
  show "dbm_error db (s\<lparr>gdbm_errno := e\<rparr>) \<noteq> Inl f"
    by (simp add: dbm_error_def)
qed

text \<open>
  C6. \<open>dbm_error\<close> has no side effects: for every handle and every program state, the
  state after the call is the state before it, so the global error indicator, the
  contents of the handles and everything else are unchanged.
\<close>

theorem dbm_error_no_side_effect:
  "\<exists>v s'. dbm_error db s = Inr (v, s') \<and> s' = s
     \<and> gdbm_errno s' = gdbm_errno s \<and> mem s' = mem s \<and> contents s' = contents s"
  by (simp add: dbm_error_def)

text \<open>
  C7. Neither function reads or writes the structure a handle points to. No write: the
  memory of the handles after the call is the memory before it. No read: run with any
  other memory \<open>m'\<close> in place of the handles' memory, \<open>dbm_clearerr\<close> leaves the same
  state up to that memory, and \<open>dbm_error\<close> returns the same value.
\<close>

theorem handle_contents_untouched:
  "(\<exists>s1. dbm_clearerr db s = Inr ((), s1) \<and> mem s1 = mem s
      \<and> dbm_clearerr db (s\<lparr>mem := m'\<rparr>) = Inr ((), s1\<lparr>mem := m'\<rparr>))
   \<and> (\<exists>v s2. dbm_error db s = Inr (v, s2) \<and> mem s2 = mem s
      \<and> dbm_error db (s\<lparr>mem := m'\<rparr>) = Inr (v, s2\<lparr>mem := m'\<rparr>))"
proof
  show "\<exists>s1. dbm_clearerr db s = Inr ((), s1) \<and> mem s1 = mem s
      \<and> dbm_clearerr db (s\<lparr>mem := m'\<rparr>) = Inr ((), s1\<lparr>mem := m'\<rparr>)"
    by (simp add: dbm_clearerr_def)
next
  show "\<exists>v s2. dbm_error db s = Inr (v, s2) \<and> mem s2 = mem s
      \<and> dbm_error db (s\<lparr>mem := m'\<rparr>) = Inr (v, s2\<lparr>mem := m'\<rparr>)"
    by (simp add: dbm_error_def)
qed

text \<open>
  C8. Both functions are safe on any pointer value: on the null pointer and on a
  pointer \<open>db\<close> with no structure behind it, where reading through the pointer
  faults, both complete; and the outcome on any \<open>db\<close> is the outcome on the null
  pointer, the handle never being read.
\<close>

theorem error_functions_any_pointer:
  "\<not> completes (deref NULL s)
   \<and> completes (dbm_clearerr NULL s) \<and> completes (dbm_error NULL s)
   \<and> \<not> completes (deref db (s\<lparr>mem := (mem s)(db := None)\<rparr>))
   \<and> completes (dbm_clearerr db (s\<lparr>mem := (mem s)(db := None)\<rparr>))
   \<and> completes (dbm_error db (s\<lparr>mem := (mem s)(db := None)\<rparr>))
   \<and> dbm_clearerr db s = dbm_clearerr NULL s
   \<and> dbm_error db s = dbm_error NULL s"
  by (simp add: completes_def deref_def dbm_clearerr_def dbm_error_def)

subsection \<open>Algebra of the two calls\<close>

text \<open>
  C9. \<open>dbm_clearerr\<close> is idempotent: for every handle and every starting state, two
  calls in succession leave the state, and so the global error indicator, that one
  call leaves.
\<close>

theorem dbm_clearerr_idempotent:
  "seq (dbm_clearerr db) (\<lambda>u. dbm_clearerr db) s = dbm_clearerr db s"
  by (simp add: seq_def dbm_clearerr_def)

text \<open>
  C10. The value \<open>dbm_error\<close> returns depends on the global error indicator alone:
  for any two handles and any two program states with the same indicator, the two
  calls return the same value.
\<close>

theorem dbm_error_depends_on_indicator_only:
  assumes "gdbm_errno s1 = gdbm_errno s2"
  shows "\<exists>v. dbm_error db1 s1 = Inr (v, s1) \<and> dbm_error db2 s2 = Inr (v, s2)"
proof
  show "dbm_error db1 s1 = Inr (gdbm_errno s1, s1) \<and> dbm_error db2 s2 = Inr (gdbm_errno s1, s2)"
    using assms by (simp add: dbm_error_def)
qed

text \<open>
  The same at an input: the null handle in a state with no database, and the handle
  4096 of an open database, both states holding the error code 15.
\<close>

theorem dbm_error_depends_on_indicator_only_witness:
  "gdbm_errno \<lparr>gdbm_errno = 15, mem = Map.empty, contents = Map.empty\<rparr>
     = gdbm_errno \<lparr>gdbm_errno = 15, mem = [4096 \<mapsto> \<lparr>dummy = replicate 10 0\<rparr>],
         contents = [4096 \<mapsto> \<lparr>writer = True, records = Map.empty\<rparr>]\<rparr>
   \<and> (\<exists>v. dbm_error NULL \<lparr>gdbm_errno = 15, mem = Map.empty, contents = Map.empty\<rparr>
         = Inr (v, \<lparr>gdbm_errno = 15, mem = Map.empty, contents = Map.empty\<rparr>)
       \<and> dbm_error 4096 \<lparr>gdbm_errno = 15, mem = [4096 \<mapsto> \<lparr>dummy = replicate 10 0\<rparr>],
           contents = [4096 \<mapsto> \<lparr>writer = True, records = Map.empty\<rparr>]\<rparr>
         = Inr (v, \<lparr>gdbm_errno = 15, mem = [4096 \<mapsto> \<lparr>dummy = replicate 10 0\<rparr>],
           contents = [4096 \<mapsto> \<lparr>writer = True, records = Map.empty\<rparr>]\<rparr>)
       \<and> v = 15)"
proof -
  let ?s1 = "\<lparr>gdbm_errno = 15, mem = Map.empty, contents = Map.empty\<rparr>"
  let ?s2 = "\<lparr>gdbm_errno = 15, mem = [4096 \<mapsto> \<lparr>dummy = replicate 10 0\<rparr>],
         contents = [4096 \<mapsto> \<lparr>writer = True, records = Map.empty\<rparr>]\<rparr>"
  have h: "gdbm_errno ?s1 = gdbm_errno ?s2"
    by simp
  from dbm_error_depends_on_indicator_only [OF h, of NULL 4096]
  obtain v where v: "dbm_error NULL ?s1 = Inr (v, ?s1)" "dbm_error 4096 ?s2 = Inr (v, ?s2)"
    by blast
  from v(1) have "v = 15"
    by (simp add: dbm_error_def)
  with h v show ?thesis
    by blast
qed

end
